theory Spec2Isabelle
  imports Main "HOL-Library.Word"
begin

section \<open>The Nebula provisioner of authority/provisioner/nebula.go\<close>

text \<open>
  The provisioner authorizes requests for X.509 and SSH host certificates from a token
  that carries a Nebula (mesh network) certificate. This theory embeds nebula.go: every
  method of \<open>*Nebula\<close> that decides a request, and the two identity validators. A Go
  function returning \<open>(v, error)\<close> returns a \<open>result\<close> here; a function returning only
  \<open>error\<close> returns an \<open>error option\<close>, \<open>None\<close> being \<open>nil\<close>, or a \<open>unit result\<close> where
  it can panic.
\<close>

subsection \<open>Bytes, times, IP addresses\<close>

type_synonym bytes = "8 word list"

text \<open>\<open>time.Time\<close> as nanoseconds since the Unix epoch, \<open>time.Duration\<close> as nanoseconds.\<close>

type_synonym Time = int
type_synonym Duration = int

definition Second :: Duration where
  "Second = 1000000000"

definition Minute :: Duration where
  "Minute = 60 * Second"

definition Add :: "Time \<Rightarrow> Duration \<Rightarrow> Time" where
  "Add t d = t + d"

definition Unix :: "Time \<Rightarrow> int" where
  "Unix t = t div Second"

text \<open>
  \<open>net.IP\<close> is a byte slice, of length 4 or 16 for an address; \<open>net.IPNet\<close> is an address
  with a mask. \<open>Equal\<close> is \<open>net.IP.Equal\<close> of the Go library: an IPv4 address and its
  IPv4-in-IPv6 form are the same address.
\<close>

type_synonym IP = bytes

record IPNet =
  IP :: IP
  Mask :: bytes

definition v4InV6Prefix :: bytes where
  "v4InV6Prefix = [0, 0, 0, 0, 0, 0, 0, 0, 0, 0, 0xff, 0xff]"

definition Equal :: "IP \<Rightarrow> IP \<Rightarrow> bool" where
  "Equal ip x =
     (if length ip = length x then ip = x
      else if length ip = 4 \<and> length x = 16 then take 12 x = v4InV6Prefix \<and> ip = drop 12 x
      else if length ip = 16 \<and> length x = 4 then take 12 ip = v4InV6Prefix \<and> drop 12 ip = x
      else False)"

subsection \<open>Errors\<close>

text \<open>
  The errors of package \<open>errs\<close> carry an HTTP status. \<open>Errs st fmt args\<close> is
  \<open>errs.Unauthorized(fmt, args...)\<close> or \<open>errs.Forbidden(fmt, args...)\<close>, with the format
  string and its arguments kept apart; \<open>ErrsErr st err msg\<close> is
  \<open>errs.UnauthorizedErr(err, errs.WithMessage(msg))\<close>; \<open>New msg\<close> is any other error,
  those of the libraries included.
\<close>

datatype status = StatusUnauthorized | StatusForbidden | StatusInternalServer

datatype arg =
    AString string
  | AStrings "string list"
  | AIPs "IP list"
  | AIPNets "IPNet list"

datatype error =
    New string
  | Errs status string "arg list"
  | ErrsErr status error string

text \<open>
  The outcome of a call: a value with a \<open>nil\<close> error, an error, or a run-time panic
  (a nil pointer dereference, an index out of range), which is not an error value.
\<close>

datatype 'a result = Ok 'a | Err error | Panic string

definition statusOf :: "error \<Rightarrow> status option" where
  "statusOf e = (case e of New m \<Rightarrow> None | Errs st f as \<Rightarrow> Some st | ErrsErr st c m \<Rightarrow> Some st)"

subsection \<open>The provisioner\<close>

text \<open>
  Modelled from the spec: the duration-limit policy (\<open>Claimer\<close>, claims.go) is not under
  src/. It holds the minimum, maximum and default validity of TLS certificates and of SSH
  host certificates and two flags, SSH enabled and renewal disabled; each field is
  what the method of that name returns.
\<close>

record Claimer =
  DefaultTLSCertDuration :: Duration
  MinTLSCertDuration :: Duration
  MaxTLSCertDuration :: Duration
  DefaultHostSSHCertDuration :: Duration
  MinHostSSHCertDuration :: Duration
  MaxHostSSHCertDuration :: Duration
  IsSSHCAEnabled :: bool
  IsDisableRenewal :: bool

text \<open>
  Modelled from the spec: \<open>Audiences\<close> (provisioner.go) is not under src/: for each
  operation, the audience values this provisioner accepts.
\<close>

record Audiences =
  Sign :: "string list"
  Revoke :: "string list"
  SSHSign :: "string list"
  SSHRevoke :: "string list"
  SSHRenew :: "string list"

text \<open>The configured claims and the template options are passed on, never read.\<close>

typedecl Claims
typedecl Options

text \<open>
  A Nebula certificate (package \<open>cert\<close> of slackhq/nebula): the fields the provisioner
  reads, and the pool of trusted authorities.
\<close>

record NebulaCertificateDetails =
  Name :: string
  Ips :: "IPNet list"
  NotBefore :: Time
  NotAfter :: Time
  PublicKey :: bytes
  IsCA :: bool

record NebulaCertificate =
  Details :: NebulaCertificateDetails
  Signature :: bytes

datatype NebulaCAPool = NebulaCAPool (CAs: "NebulaCertificate list")

text \<open>
  The struct \<open>Nebula\<close>. \<open>claimer\<close>, \<open>caPool\<close> and \<open>audiences\<close> are the fields \<open>Init\<close>
  sets; the methods below are those of an initialised provisioner.
\<close>

record Nebula =
  ID :: string
  Type :: string
  Name :: string
  Roots :: bytes
  Claims :: "Claims option"
  Options :: "Options option"
  claimer :: Claimer
  caPool :: NebulaCAPool
  audiences :: Audiences

datatype Type = TypeNebula | TypeOther string

definition GetIDForToken :: "Nebula \<Rightarrow> string" where
  "GetIDForToken p = ''nebula/'' @ Nebula.Name p"

definition GetID :: "Nebula \<Rightarrow> string" where
  "GetID p = (if ID p \<noteq> '''' then ID p else GetIDForToken p)"

definition GetName :: "Nebula \<Rightarrow> string" where
  "GetName p = Nebula.Name p"

definition GetType :: "Nebula \<Rightarrow> Type" where
  "GetType p = TypeNebula"

definition GetEncryptedKey :: "Nebula \<Rightarrow> string \<times> string \<times> bool" where
  "GetEncryptedKey p = ('''', '''', False)"

subsection \<open>Tokens and claims\<close>

text \<open>
  A value of type \<open>interface{}\<close> decoded from JSON; a JSON number is kept as an integer.
\<close>

datatype iface =
    INull
  | IBool bool
  | INumber int
  | IString string
  | IList "iface list"
  | IMap "(string \<times> iface) list"

text \<open>The parsed token (\<open>jose.JSONWebToken\<close>): its headers, each with its extra fields.\<close>

record Header =
  ExtraHeaders :: "string \<rightharpoonup> iface"

record JSONWebToken =
  Headers :: "Header list"

definition NebulaCertHeader :: string where
  "NebulaCertHeader = ''nbc''"

text \<open>
  Modelled from the spec: \<open>TimeDuration\<close> (timeduration.go) is not under src/: a relative
  validity bound, zero when it is not given, made absolute at the reference time.
\<close>

datatype TimeDuration = TimeDuration Duration

fun IsZero :: "TimeDuration \<Rightarrow> bool" where
  "IsZero (TimeDuration d) = (d = 0)"

fun RelativeTime :: "TimeDuration \<Rightarrow> Time \<Rightarrow> Time" where
  "RelativeTime (TimeDuration d) t = Add t d"

text \<open>
  The SSH sub-claims (\<open>SignSSHOptions\<close>), the payload \<open>step\<close> that holds them behind a
  pointer, and the claims of the token (\<open>jwtPayload\<close>: the registered claims of
  \<open>jose.Claims\<close>, the SANs and a pointer to the \<open>step\<close> payload).
\<close>

record SignSSHOptions =
  CertType :: string
  KeyID :: string
  Principals :: "string list"
  ValidAfter :: TimeDuration
  ValidBefore :: TimeDuration

record stepPayload =
  SSH :: "SignSSHOptions option"

record jwtPayload =
  Issuer :: string
  Subject :: string
  Audience :: "string list"
  Expiry :: "Time option"
  NotBefore :: "Time option"
  ID :: string
  SANs :: "string list"
  Step :: "stepPayload option"

text \<open>Modelled from the spec: the only certificate type accepted is \<open>host\<close>.\<close>

definition SSHHostCert :: string where
  "SSHHostCert = ''host''"

definition HostCert :: string where
  "HostCert = ''host''"

text \<open>
  The key handed to \<open>jose.Verify\<close>: the bytes of the certificate's public key, read as a
  key of one of two types.
\<close>

datatype PublicKey = Ed25519PublicKey bytes | X25519PublicKey bytes

text \<open>
  Modelled from the spec: \<open>jose.Expected\<close> and \<open>Claims.ValidateWithLeeway\<close> are library
  code, not under src/. The claims are valid when the issuer is the expected one and the
  reference time, with the leeway, is within the token's not-before and expiry, where
  the token has them.
\<close>

record Expected =
  Issuer :: string
  Time :: Time

definition ValidateWithLeeway :: "jwtPayload \<Rightarrow> Expected \<Rightarrow> Duration \<Rightarrow> error option" where
  "ValidateWithLeeway c e leeway =
     (if jwtPayload.Issuer c \<noteq> Expected.Issuer e
      then Some (New ''validation failed, invalid issuer claim (iss)'')
      else if (case jwtPayload.NotBefore c of
                 None \<Rightarrow> False | Some nbf \<Rightarrow> Add (Time e) leeway < nbf)
      then Some (New ''validation failed, token not valid yet (nbf)'')
      else if (case Expiry c of
                 None \<Rightarrow> False | Some ex \<Rightarrow> ex < Add (Time e) (- leeway))
      then Some (New ''validation failed, token is expired (exp)'')
      else None)"

text \<open>
  Modelled from the spec: \<open>matchesAudience\<close> (a helper of the package, not under src/)
  holds when at least one audience of the claims is in the accepted set.
\<close>

definition matchesAudience :: "string list \<Rightarrow> string list \<Rightarrow> bool" where
  "matchesAudience claimed accepted \<longleftrightarrow> (\<exists>a \<in> set claimed. a \<in> set accepted)"

subsection \<open>Certificate requests, template data and sign options\<close>

text \<open>The fields of \<open>x509.CertificateRequest\<close> the SAN validator reads; a URI is its text.\<close>

record CertificateRequest =
  DNSNames :: "string list"
  EmailAddresses :: "string list"
  IPAddresses :: "IP list"
  URIs :: "string list"

text \<open>\<open>TemplateData\<close> is a \<open>map[string]interface{}\<close>; these are the values stored in it.\<close>

datatype tvalue =
    VString string
  | VStrings "string list"
  | VClaims "(string \<times> iface) list"
  | VCert NebulaCertificate

type_synonym TemplateData = "string \<rightharpoonup> tvalue"

definition Set_data :: "TemplateData \<Rightarrow> string \<Rightarrow> tvalue \<Rightarrow> TemplateData" where
  "Set_data data k v = data(k \<mapsto> v)"

record nebulaSANsValidator =
  Name :: string
  IPs :: "IPNet list"

record nebulaPrincipalsValidator =
  Name :: string
  IPs :: "IPNet list"

text \<open>
  A sign option is a value holding what the Go value holds: for an option built by a
  constructor function, its arguments; for a closure, what it captures.
\<close>

datatype SignOption =
    CertificateOptionsFunc "Options option" TemplateData
  | SshCertificateOptionsFunc "Options option" TemplateData
  | provisionerExtensionOption Type string string
  | profileLimitDuration Duration Time Time
  | commonNameValidator string
  | SANsValidator nebulaSANsValidator
  | defaultPublicKeyValidator
  | validityValidator Duration Duration
  | sshCertOptionsValidator SignSSHOptions
  | sshCertValidAfterModifier int
  | sshCertValidBeforeModifier int
  | sshLimitDuration Claimer Time
  | sshDefaultPublicKeyValidator
  | sshCertValidityValidator Claimer
  | sshCertDefaultValidator

subsection \<open>The functions of other packages\<close>

text \<open>
  What nebula.go calls and does not define is a parameter of the model: the token and
  certificate parsers, the two signature checks, the clock, the template functions, the
  SAN classifier and the three SAN validators of sign\_options.go, and the IP parser and
  printer. A function returning \<open>(v, error)\<close> returns \<open>Inl\<close> the error or \<open>Inr\<close> the
  value. \<open>now k\<close> is what the \<open>k\<close>-th reading of the clock in one call returns.
\<close>

record externals =
  ParseSigned :: "string \<Rightarrow> error + JSONWebToken"
  DecodeString :: "string \<Rightarrow> error + bytes"
  UnmarshalNebulaCertificateFromPEM :: "bytes \<Rightarrow> error + NebulaCertificate"
  Verify :: "NebulaCertificate \<Rightarrow> Time \<Rightarrow> NebulaCAPool \<Rightarrow> bool \<times> error option"
  joseVerify :: "JSONWebToken \<Rightarrow> PublicKey \<Rightarrow> error + jwtPayload"
  now :: "nat \<Rightarrow> Time"
  unsafeParseSigned :: "string \<Rightarrow> error + (string \<times> iface) list"
  CreateTemplateData :: "string \<Rightarrow> string list \<Rightarrow> TemplateData"
  sshCreateTemplateData :: "string \<Rightarrow> string \<Rightarrow> string list \<Rightarrow> TemplateData"
  SetToken :: "TemplateData \<Rightarrow> (string \<times> iface) list \<Rightarrow> TemplateData"
  TemplateOptions :: "Options option \<Rightarrow> TemplateData \<Rightarrow> error + SignOption"
  TemplateSSHOptions :: "Options option \<Rightarrow> TemplateData \<Rightarrow> error + SignOption"
  SplitSANs :: "string list \<Rightarrow> string list \<times> IP list \<times> string list \<times> string list"
  dnsNamesValidator :: "string list \<Rightarrow> CertificateRequest \<Rightarrow> error option"
  emailAddressesValidator :: "string list \<Rightarrow> CertificateRequest \<Rightarrow> error option"
  urisValidator :: "string list \<Rightarrow> CertificateRequest \<Rightarrow> error option"
  ParseIP :: "string \<Rightarrow> IP option"
  IPString :: "IP \<Rightarrow> string"

subsection \<open>Renewal, SSH renewal and SSH rekey\<close>

text \<open>
  \<open>ctx\<close> and the certificate are arguments the methods never read: they are of any type.
  \<open>AuthorizeSSHRenew\<close> returns \<open>(*ssh.Certificate, error)\<close> and \<open>AuthorizeSSHRekey\<close>
  returns \<open>(*ssh.Certificate, []SignOption, error)\<close>; the tuples are kept, a nil pointer
  being \<open>None\<close> and a nil slice \<open>[]\<close>.
\<close>

definition AuthorizeRenew :: "Nebula \<Rightarrow> 'ctx \<Rightarrow> 'cert \<Rightarrow> error option" where
  "AuthorizeRenew p ctx cert =
     (if IsDisableRenewal (claimer p)
      then Some (Errs StatusUnauthorized
                   (''renew is disabled for nebula provisioner '%s'' @ [CHR 0x27])
                   [AString (GetName p)])
      else None)"

definition AuthorizeSSHRenew ::
  "Nebula \<Rightarrow> 'ctx \<Rightarrow> string \<Rightarrow> 'sshcert option \<times> error option" where
  "AuthorizeSSHRenew p ctx token =
     (None, Some (Errs StatusUnauthorized ''nebula provisioner does not support SSH renew'' []))"

definition AuthorizeSSHRekey ::
  "Nebula \<Rightarrow> 'ctx \<Rightarrow> string \<Rightarrow> 'sshcert option \<times> SignOption list \<times> error option" where
  "AuthorizeSSHRekey p ctx token =
     (None, [], Some (Errs StatusUnauthorized ''nebula provisioner does not support SSH rekey'' []))"

subsection \<open>The identity validators\<close>

text \<open>
  The two inner loops of the validators: \<open>ipInName\<close> is the search of lines 371--376
  among the addresses parsed from the name, \<open>ipInNetworks\<close> the search of lines 379--384
  and 410--415 among the addresses of the certificate's networks. Each stops at the first
  address that \<open>Equal\<close> accepts.
\<close>

primrec ipInName :: "IP \<Rightarrow> IP list \<Rightarrow> bool" where
  "ipInName ip [] = False"
| "ipInName ip (ipInName' # rest) = (if Equal ip ipInName' then True else ipInName ip rest)"

primrec ipInNetworks :: "IP \<Rightarrow> IPNet list \<Rightarrow> bool" where
  "ipInNetworks ip [] = False"
| "ipInNetworks ip (ipnet # rest) = (if Equal ip (IP ipnet) then True else ipInNetworks ip rest)"

text \<open>The loop of lines 368--389 over the addresses of the request.\<close>

fun validIPAddresses ::
  "nebulaSANsValidator \<Rightarrow> IP list \<Rightarrow> CertificateRequest \<Rightarrow> IP list \<Rightarrow> error option" where
  "validIPAddresses v ips req [] = None"
| "validIPAddresses v ips req (ip # rest) =
     (let valid = ipInName ip ips;
          valid = (if \<not> valid then ipInNetworks ip (nebulaSANsValidator.IPs v) else valid)
      in if \<not> valid
         then Some (Errs StatusForbidden
                ''certificate request does not contain the valid IP addresses - got %v, want %v''
                [AIPs (IPAddresses req), AIPNets (nebulaSANsValidator.IPs v)])
         else validIPAddresses v ips req rest)"

definition nebulaSANsValidator_Valid ::
  "externals \<Rightarrow> nebulaSANsValidator \<Rightarrow> CertificateRequest \<Rightarrow> error option" where
  "nebulaSANsValidator_Valid ext v req =
     (case SplitSANs ext [nebulaSANsValidator.Name v] of (dnsNames, ips, emails, uris) \<Rightarrow>
      (case (if length (DNSNames req) > 0 then dnsNamesValidator ext dnsNames req else None) of
         Some err \<Rightarrow> Some err
       | None \<Rightarrow>
      (case (if length (EmailAddresses req) > 0
             then emailAddressesValidator ext emails req else None) of
         Some err \<Rightarrow> Some err
       | None \<Rightarrow>
      (case (if length (URIs req) > 0 then urisValidator ext uris req else None) of
         Some err \<Rightarrow> Some err
       | None \<Rightarrow>
      (if length (IPAddresses req) > 0
       then validIPAddresses v ips req (IPAddresses req)
       else None)))))"

text \<open>The loop of lines 403--425 over the principals of the SSH options.\<close>

fun validPrincipals ::
  "externals \<Rightarrow> nebulaPrincipalsValidator \<Rightarrow> SignSSHOptions \<Rightarrow> string list \<Rightarrow> error option" where
  "validPrincipals ext v got [] = None"
| "validPrincipals ext v got (p # rest) =
     (let valid = (p = nebulaPrincipalsValidator.Name v);
          valid = (if \<not> valid
                   then (case ParseIP ext p of
                           None \<Rightarrow> valid
                         | Some ip \<Rightarrow>
                             (if ipInNetworks ip (nebulaPrincipalsValidator.IPs v)
                              then True else valid))
                   else valid)
      in if \<not> valid
         then Some (Errs StatusForbidden
                (''ssh certificate principals does contain a valid name or IP address - ''
                   @ ''got %v, want %s or %v'')
                [AStrings (Principals got), AString (nebulaPrincipalsValidator.Name v),
                 AIPNets (nebulaPrincipalsValidator.IPs v)])
         else validPrincipals ext v got rest)"

definition nebulaPrincipalsValidator_Valid ::
  "externals \<Rightarrow> nebulaPrincipalsValidator \<Rightarrow> SignSSHOptions \<Rightarrow> error option" where
  "nebulaPrincipalsValidator_Valid ext v got = validPrincipals ext v got (Principals got)"



subsection \<open>Token authorization\<close>

text \<open>
  \<open>authorizeToken\<close>, lines 279--341, one branch for each return. \<open>jwt.Headers[0]\<close>
  panics on a token with no header. The clock is read twice: for the verification of
  the certificate and for the validation of the claims.
\<close>

definition authorizeToken ::
  "externals \<Rightarrow> Nebula \<Rightarrow> string \<Rightarrow> string list \<Rightarrow> (NebulaCertificate \<times> jwtPayload) result" where
  "authorizeToken ext p token auds =
     (case ParseSigned ext token of
        Inl err \<Rightarrow> Err (ErrsErr StatusUnauthorized err ''failed to parse token'')
      | Inr jwt \<Rightarrow>
     (case Headers jwt of
        [] \<Rightarrow> Panic ''index out of range''
      | h # hs \<Rightarrow>
     (case ExtraHeaders h NebulaCertHeader of
        None \<Rightarrow> Err (Errs StatusUnauthorized ''failed to parse token: nbc header is missing'' [])
      | Some nbc \<Rightarrow>
     (case nbc of
        IString s \<Rightarrow>
          (case DecodeString ext s of
             Inl err \<Rightarrow>
               Err (ErrsErr StatusUnauthorized err
                      ''failed to parse token: nbc header is not valid'')
           | Inr b \<Rightarrow>
          (case UnmarshalNebulaCertificateFromPEM ext b of
             Inl err \<Rightarrow>
               Err (ErrsErr StatusUnauthorized err
                      ''failed to parse nebula certificate: nbc header is not valid'')
           | Inr c \<Rightarrow>
          (case Verify ext c (now ext 0) (caPool p) of (valid, verr) \<Rightarrow>
           if \<not> valid
           then (case verr of
                   Some err \<Rightarrow>
                     Err (ErrsErr StatusUnauthorized err
                            ''token is not valid: failed to unmarshal certificate'')
                 | None \<Rightarrow>
                     Err (Errs StatusUnauthorized
                            ''token is not valid: failed to unmarshal certificate'' []))
           else
          (let pub = (if IsCA (Details c)
                      then Ed25519PublicKey (PublicKey (Details c))
                      else X25519PublicKey (PublicKey (Details c)))
           in
          (case joseVerify ext jwt pub of
             Inl err \<Rightarrow>
               Err (ErrsErr StatusUnauthorized err
                      ''token is not valid: signature does not match'')
           | Inr claims \<Rightarrow>
          (case ValidateWithLeeway claims
                  \<lparr>Expected.Issuer = Nebula.Name p, Time = now ext 1\<rparr> Minute of
             Some err \<Rightarrow>
               Err (ErrsErr StatusUnauthorized err ''token is not valid: invalid claims'')
           | None \<Rightarrow>
           if \<not> matchesAudience (Audience claims) auds
           then Err (Errs StatusUnauthorized ''token is not valid: invalid claims'' [])
           else if Subject claims = ''''
           then Err (Errs StatusUnauthorized
                       ''token is not valid: subject cannot be empty'' [])
           else Ok (c, claims)))))))
      | _ \<Rightarrow> Err (Errs StatusUnauthorized ''failed to parse token: nbc header is not valid'' [])))))"

text \<open>\<open>validateToken\<close> keeps the error of \<open>authorizeToken\<close> only.\<close>

definition validateToken :: "externals \<Rightarrow> Nebula \<Rightarrow> string \<Rightarrow> string list \<Rightarrow> unit result" where
  "validateToken ext p token auds =
     (case authorizeToken ext p token auds of
        Ok r \<Rightarrow> Ok ()
      | Err err \<Rightarrow> Err err
      | Panic m \<Rightarrow> Panic m)"

definition AuthorizeRevoke :: "externals \<Rightarrow> Nebula \<Rightarrow> 'ctx \<Rightarrow> string \<Rightarrow> unit result" where
  "AuthorizeRevoke ext p ctx token = validateToken ext p token (Revoke (audiences p))"

definition AuthorizeSSHRevoke :: "externals \<Rightarrow> Nebula \<Rightarrow> 'ctx \<Rightarrow> string \<Rightarrow> unit result" where
  "AuthorizeSSHRevoke ext p ctx token =
     (if \<not> IsSSHCAEnabled (claimer p)
      then Err (Errs StatusUnauthorized
                  (''ssh is disabled for nebula provisioner '%s'' @ [CHR 0x27])
                  [AString (Nebula.Name p)])
      else (case authorizeToken ext p token (Revoke (audiences p)) of
              Ok r \<Rightarrow> Ok ()
            | Err err \<Rightarrow> Err err
            | Panic m \<Rightarrow> Panic m))"

subsection \<open>The sign options of an X.509 request\<close>

text \<open>\<open>AuthorizeSign\<close>, lines 111--146.\<close>

definition AuthorizeSign ::
  "externals \<Rightarrow> Nebula \<Rightarrow> 'ctx \<Rightarrow> string \<Rightarrow> SignOption list result" where
  "AuthorizeSign ext p ctx token =
     (case authorizeToken ext p token (Sign (audiences p)) of
        Err err \<Rightarrow> Err err
      | Panic m \<Rightarrow> Panic m
      | Ok (cert, claims) \<Rightarrow>
     (let data = CreateTemplateData ext (Subject claims) (SANs claims);
          data = (case unsafeParseSigned ext token of
                    Inr v \<Rightarrow> SetToken ext data v
                  | Inl err \<Rightarrow> data);
          data = Set_data data ''Cert'' (VCert cert)
      in
     (case TemplateOptions ext (Options p) data of
        Inl err \<Rightarrow> Err err
      | Inr templateOptions \<Rightarrow>
          Ok [templateOptions,
              provisionerExtensionOption TypeNebula (Nebula.Name p) '''',
              profileLimitDuration
                (DefaultTLSCertDuration (claimer p))
                (NebulaCertificateDetails.NotBefore (Details cert))
                (NotAfter (Details cert)),
              commonNameValidator (Subject claims),
              SANsValidator
                \<lparr>nebulaSANsValidator.Name = NebulaCertificateDetails.Name (Details cert),
                 IPs = Ips (Details cert)\<rparr>,
              defaultPublicKeyValidator,
              validityValidator
                (MinTLSCertDuration (claimer p)) (MaxTLSCertDuration (claimer p))])))"

subsection \<open>The sign options of an SSH request\<close>

text \<open>
  Reading a field through a pointer: a nil pointer panics.
\<close>

definition deref :: "'a option \<Rightarrow> 'a result" where
  "deref ptr =
     (case ptr of
        None \<Rightarrow> Panic ''invalid memory address or nil pointer dereference''
      | Some x \<Rightarrow> Ok x)"

text \<open>
  The condition of line 171, \<open>claims.Step != nil || claims.Step.SSH != nil\<close>: the right
  operand is evaluated when the left one is false, and reads \<open>SSH\<close> through \<open>claims.Step\<close>.
\<close>

definition stepGiven :: "jwtPayload \<Rightarrow> bool result" where
  "stepGiven claims =
     (if Step claims \<noteq> None then Ok True
      else (case deref (Step claims) of
              Ok step \<Rightarrow> Ok (SSH step \<noteq> None)
            | Err err \<Rightarrow> Err err
            | Panic m \<Rightarrow> Panic m))"

text \<open>
  The body of the conditional, lines 172--212: from the certificate, the claims and the
  default key id and principals, the sign options, the key id and the principals to go
  on with. The clock is read a third time.
\<close>

definition stepOptions ::
  "externals \<Rightarrow> NebulaCertificate \<Rightarrow> jwtPayload \<Rightarrow> string \<Rightarrow> string list \<Rightarrow>
   (SignOption list \<times> string \<times> string list) result" where
  "stepOptions ext cert claims keyID principals =
     (case deref (Step claims) of
        Err err \<Rightarrow> Err err
      | Panic m \<Rightarrow> Panic m
      | Ok step \<Rightarrow>
     (case deref (SSH step) of
        Err err \<Rightarrow> Err err
      | Panic m \<Rightarrow> Panic m
      | Ok opts \<Rightarrow>
     (let v = \<lparr>nebulaPrincipalsValidator.Name = NebulaCertificateDetails.Name (Details cert),
               IPs = Ips (Details cert)\<rparr>
      in
     (case nebulaPrincipalsValidator_Valid ext v opts of
        Some err \<Rightarrow> Err err
      | None \<Rightarrow>
      if CertType opts \<noteq> '''' \<and> CertType opts \<noteq> SSHHostCert
      then Err (Errs StatusForbidden
                  ''ssh certificate type does not match - got %v, want %v''
                  [AString (CertType opts), AString SSHHostCert])
      else
     (let signOptions =
            [sshCertOptionsValidator
               \<lparr>CertType = SSHHostCert, KeyID = Subject claims, Principals = [],
                ValidAfter = TimeDuration 0, ValidBefore = TimeDuration 0\<rparr>,
             sshCertOptionsValidator opts];
          keyID = (if KeyID opts \<noteq> '''' then KeyID opts else keyID);
          principals = (if length (Principals opts) > 0 then Principals opts else principals);
          t = now ext 2;
          signOptions =
            (if \<not> IsZero (ValidAfter opts)
             then signOptions @
                    [sshCertValidAfterModifier (Unix (RelativeTime (ValidAfter opts) t))]
             else signOptions);
          signOptions =
            (if \<not> IsZero (ValidBefore opts)
             then signOptions @
                    [sshCertValidBeforeModifier (Unix (RelativeTime (ValidBefore opts) t))]
             else signOptions)
      in Ok (signOptions, keyID, principals))))))"

text \<open>\<open>AuthorizeSSHSign\<close>, lines 150--238.\<close>

definition AuthorizeSSHSign ::
  "externals \<Rightarrow> Nebula \<Rightarrow> 'ctx \<Rightarrow> string \<Rightarrow> SignOption list result" where
  "AuthorizeSSHSign ext p ctx token =
     (if \<not> IsSSHCAEnabled (claimer p)
      then Err (Errs StatusUnauthorized
                  (''ssh is disabled for nebula provisioner '%s'' @ [CHR 0x27])
                  [AString (Nebula.Name p)])
      else
     (case authorizeToken ext p token (SSHSign (audiences p)) of
        Err err \<Rightarrow> Err err
      | Panic m \<Rightarrow> Panic m
      | Ok (cert, claims) \<Rightarrow>
     (let keyID = Subject claims;
          principals = NebulaCertificateDetails.Name (Details cert) #
                       map (\<lambda>ipnet. IPString ext (IP ipnet)) (Ips (Details cert))
      in
     (case stepGiven claims of
        Err err \<Rightarrow> Err err
      | Panic m \<Rightarrow> Panic m
      | Ok given \<Rightarrow>
     (case (if given then stepOptions ext cert claims keyID principals
            else Ok ([], keyID, principals)) of
        Err err \<Rightarrow> Err err
      | Panic m \<Rightarrow> Panic m
      | Ok (signOptions, keyID, principals) \<Rightarrow>
     (let data = sshCreateTemplateData ext HostCert keyID principals;
          data = (case unsafeParseSigned ext token of
                    Inr v \<Rightarrow> SetToken ext data v
                  | Inl err \<Rightarrow> data);
          data = Set_data data ''Cert'' (VCert cert)
      in
     (case TemplateSSHOptions ext (Options p) data of
        Inl err \<Rightarrow> Err err
      | Inr templateOptions \<Rightarrow>
          Ok (signOptions @
              [templateOptions,
               sshLimitDuration (claimer p) (NotAfter (Details cert)),
               sshDefaultPublicKeyValidator,
               sshCertValidityValidator (claimer p),
               sshCertDefaultValidator]))))))))"

subsection \<open>A concrete run\<close>

text \<open>
  Scenario A of the specification: the provisioner \<open>nebula/edge1\<close> with TLS durations
  between five minutes and a day and SSH enabled, and a token of the leaf \<open>node-7\<close> with
  the address 10.0.0.7/32, subject \<open>node-7\<close>, no \<open>step\<close> claim, and the audiences of the
  sign and the SSH sign operations. The functions of the other packages are given at
  the inputs of this run: the token parses, its header \<open>nbc\<close> decodes to the
  certificate, the certificate verifies, and the signature verifies with the X25519 key
  of the certificate only.
\<close>

definition exampleAddresses :: "(string \<times> IP) list" where
  "exampleAddresses =
     [(''10.0.0.7'', [10, 0, 0, 7]), (''10.0.0.8'', [10, 0, 0, 8]), (''10.0.0.9'', [10, 0, 0, 9])]"

definition exampleCert :: NebulaCertificate where
  "exampleCert =
     \<lparr>Details =
        \<lparr>NebulaCertificateDetails.Name = ''node-7'',
         Ips = [\<lparr>IP = [10, 0, 0, 7], Mask = [255, 255, 255, 255]\<rparr>],
         NotBefore = 0,
         NotAfter = 86400 * Second,
         PublicKey = replicate 32 7,
         IsCA = False\<rparr>,
      Signature = replicate 64 9\<rparr>"

definition exampleCA :: NebulaCertificate where
  "exampleCA =
     \<lparr>Details =
        \<lparr>NebulaCertificateDetails.Name = ''mesh-ca'',
         Ips = [],
         NotBefore = 0,
         NotAfter = 864000 * Second,
         PublicKey = replicate 32 3,
         IsCA = True\<rparr>,
      Signature = replicate 64 5\<rparr>"

definition exampleClaims :: jwtPayload where
  "exampleClaims =
     \<lparr>jwtPayload.Issuer = ''nebula/edge1'',
      Subject = ''node-7'',
      Audience = [''https://ca/1.0/sign#nebula/nebula/edge1'',
                  ''https://ca/1.0/ssh/sign#nebula/nebula/edge1''],
      Expiry = Some (1300 * Second),
      NotBefore = Some (1000 * Second),
      ID = ''f3a1'',
      SANs = [''node-7'', ''10.0.0.7''],
      Step = None\<rparr>"

definition exampleToken :: string where
  "exampleToken = ''eyJhbGciOiJYRWREU0EifQ.eyJzdWIiOiJub2RlLTcifQ.c2ln''"

definition exampleJWT :: JSONWebToken where
  "exampleJWT = \<lparr>Headers = [\<lparr>ExtraHeaders = [NebulaCertHeader \<mapsto> IString ''bm9kZS03'']\<rparr>]\<rparr>"

definition exampleProvisioner :: Nebula where
  "exampleProvisioner =
     \<lparr>Nebula.ID = '''',
      Type = ''Nebula'',
      Name = ''nebula/edge1'',
      Roots = replicate 8 1,
      Claims = None,
      Options = None,
      claimer =
        \<lparr>DefaultTLSCertDuration = 1440 * Minute,
         MinTLSCertDuration = 5 * Minute,
         MaxTLSCertDuration = 1440 * Minute,
         DefaultHostSSHCertDuration = 43200 * Minute,
         MinHostSSHCertDuration = 5 * Minute,
         MaxHostSSHCertDuration = 43200 * Minute,
         IsSSHCAEnabled = True,
         IsDisableRenewal = False\<rparr>,
      caPool = NebulaCAPool [exampleCA],
      audiences =
        \<lparr>Sign = [''https://ca/1.0/sign#nebula/nebula/edge1''],
         Revoke = [''https://ca/1.0/revoke#nebula/nebula/edge1''],
         SSHSign = [''https://ca/1.0/ssh/sign#nebula/nebula/edge1''],
         SSHRevoke = [''https://ca/1.0/ssh/revoke#nebula/nebula/edge1''],
         SSHRenew = [''https://ca/1.0/ssh/renew#nebula/nebula/edge1'']\<rparr>\<rparr>"

text \<open>
  Modelled from the spec: the three SAN validators of sign\_options.go are not under
  src/; each requires every requested name of its kind to be among the allowed ones and
  fails with Forbidden otherwise.
\<close>

definition exampleNamesValidator ::
  "(CertificateRequest \<Rightarrow> string list) \<Rightarrow> string \<Rightarrow> string list \<Rightarrow> CertificateRequest \<Rightarrow>
   error option" where
  "exampleNamesValidator requested fmt allowed req =
     (if list_all (\<lambda>n. n \<in> set allowed) (requested req) then None
      else Some (Errs StatusForbidden fmt [AStrings (requested req), AStrings allowed]))"

definition exampleExternals :: externals where
  "exampleExternals =
     \<lparr>ParseSigned =
        (\<lambda>token. if token = exampleToken then Inr exampleJWT
                  else Inl (New ''compact JWS format must have three parts'')),
      DecodeString =
        (\<lambda>s. if s = ''bm9kZS03'' then Inr [110, 111, 100, 101, 45, 55]
              else Inl (New ''illegal base64 data'')),
      UnmarshalNebulaCertificateFromPEM =
        (\<lambda>b. if b = [110, 111, 100, 101, 45, 55] then Inr exampleCert
              else Inl (New ''input did not contain a valid PEM encoded block'')),
      Verify =
        (\<lambda>c t pool. if c = exampleCert \<and> pool = NebulaCAPool [exampleCA] then (True, None)
                     else (False, Some (New ''certificate is not signed by a known authority''))),
      joseVerify =
        (\<lambda>jwt pub. if pub = X25519PublicKey (PublicKey (Details exampleCert))
                    then Inr exampleClaims
                    else Inl (New ''error in cryptographic primitive'')),
      now = (\<lambda>k. 1200 * Second),
      unsafeParseSigned = (\<lambda>token. Inr [(''sub'', IString ''node-7'')]),
      CreateTemplateData =
        (\<lambda>cn sans. [''Subject'' \<mapsto> VString cn, ''SANs'' \<mapsto> VStrings sans]),
      sshCreateTemplateData =
        (\<lambda>ct keyID principals.
           [''Type'' \<mapsto> VString ct, ''KeyID'' \<mapsto> VString keyID,
            ''Principals'' \<mapsto> VStrings principals]),
      SetToken = (\<lambda>data v. data(''Token'' \<mapsto> VClaims v)),
      TemplateOptions = (\<lambda>opts data. Inr (CertificateOptionsFunc opts data)),
      TemplateSSHOptions = (\<lambda>opts data. Inr (SshCertificateOptionsFunc opts data)),
      SplitSANs =
        (\<lambda>sans. (filter (\<lambda>s. map_of exampleAddresses s = None) sans,
                  concat (map (\<lambda>s. case map_of exampleAddresses s of
                                       None \<Rightarrow> [] | Some b \<Rightarrow> [v4InV6Prefix @ b]) sans),
                  [], [])),
      dnsNamesValidator =
        exampleNamesValidator DNSNames
          ''certificate request does not contain the valid DNS names - got %v, want %v'',
      emailAddressesValidator =
        exampleNamesValidator EmailAddresses
          ''certificate request does not contain the valid email addresses - got %v, want %v'',
      urisValidator =
        exampleNamesValidator URIs
          ''certificate request does not contain the valid URIs - got %v, want %v'',
      ParseIP = (\<lambda>s. map_option (\<lambda>b. v4InV6Prefix @ b) (map_of exampleAddresses s)),
      IPString =
        (\<lambda>ip. case find (\<lambda>(s, b). Equal ip b) exampleAddresses of
                 None \<Rightarrow> ''?'' | Some (s, b) \<Rightarrow> s)\<rparr>"

text \<open>
  The same provisioner with renewal disabled, a certificate whose networks are
  10.0.0.7/24 and 10.0.0.8/24, and the request of scenario A.
\<close>

definition exampleRenewalDisabled :: Nebula where
  "exampleRenewalDisabled =
     exampleProvisioner\<lparr>claimer := (claimer exampleProvisioner)\<lparr>IsDisableRenewal := True\<rparr>\<rparr>"


definition exampleRequest :: CertificateRequest where
  "exampleRequest =
     \<lparr>DNSNames = [''node-7''], EmailAddresses = [], IPAddresses = [[10, 0, 0, 7]], URIs = []\<rparr>"

definition exampleSSHOptions :: "string list \<Rightarrow> SignSSHOptions" where
  "exampleSSHOptions principals =
     \<lparr>CertType = ''host'', KeyID = '''', Principals = principals,
      ValidAfter = TimeDuration 0, ValidBefore = TimeDuration 0\<rparr>"

text \<open>
  The same run with a token that carries the certificate of the authority itself: the
  signature verifies with the Ed25519 key of that certificate only.
\<close>

definition exampleCAExternals :: externals where
  "exampleCAExternals =
     exampleExternals
       \<lparr>UnmarshalNebulaCertificateFromPEM :=
          (\<lambda>b. if b = [110, 111, 100, 101, 45, 55] then Inr exampleCA
                else Inl (New ''input did not contain a valid PEM encoded block'')),
        Verify := (\<lambda>c t pool. (c = exampleCA, None)),
        joseVerify :=
          (\<lambda>jwt pub. if pub = Ed25519PublicKey (PublicKey (Details exampleCA))
                      then Inr exampleClaims
                      else Inl (New ''error in cryptographic primitive''))\<rparr>"

subsection \<open>The conditions of the specification on the claims\<close>

text \<open>
  What the specification requires of the decoded claims, for the provisioner \<open>p\<close>, the
  reference time \<open>t\<close> and the accepted audiences: the issuer is the provisioner's name,
  the reference time is within the validity window with a leeway of one minute, one
  audience of the claims at least is accepted, and the subject is not empty.
\<close>

definition acceptedClaims :: "Nebula \<Rightarrow> Time \<Rightarrow> string list \<Rightarrow> jwtPayload \<Rightarrow> bool" where
  "acceptedClaims p t auds claims \<longleftrightarrow>
     jwtPayload.Issuer claims = Nebula.Name p \<and>
     (\<forall>nbf. jwtPayload.NotBefore claims = Some nbf \<longrightarrow> nbf \<le> t + 60 * 1000000000) \<and>
     (\<forall>ex. Expiry claims = Some ex \<longrightarrow> t - 60 * 1000000000 \<le> ex) \<and>
     (\<exists>a \<in> set (Audience claims). a \<in> set auds) \<and>
     Subject claims \<noteq> ''''"

section \<open>Properties\<close>

lemmas example_defs =
  exampleExternals_def exampleProvisioner_def exampleJWT_def exampleCert_def exampleCA_def
  exampleClaims_def exampleToken_def exampleAddresses_def exampleNamesValidator_def
  NebulaCertHeader_def ValidateWithLeeway_def matchesAudience_def Minute_def Second_def
  Add_def Equal_def v4InV6Prefix_def

subsection \<open>Identifiers\<close>

text \<open>
  C10: \<open>GetIDForToken\<close> returns \<open>nebula/\<close> followed by the name; \<open>GetID\<close> returns the
  field \<open>ID\<close> when it is not empty and that same string otherwise. Neither reads
  anything else: two provisioners with the same name have the same token identifier,
  and with the same name and \<open>ID\<close> the same identifier.
\<close>

theorem GetID_and_GetIDForToken:
  "GetIDForToken p = ''nebula/'' @ Nebula.Name p \<and>
   GetID p = (if Nebula.ID p \<noteq> '''' then Nebula.ID p else ''nebula/'' @ Nebula.Name p) \<and>
   (\<forall>q. Nebula.Name q = Nebula.Name p \<longrightarrow> GetIDForToken q = GetIDForToken p) \<and>
   (\<forall>q. Nebula.Name q = Nebula.Name p \<and> Nebula.ID q = Nebula.ID p \<longrightarrow> GetID q = GetID p)"
  by (simp add: GetID_def GetIDForToken_def)

theorem GetID_and_GetIDForToken_witness:
  "GetIDForToken exampleProvisioner = ''nebula/nebula/edge1'' \<and>
   GetID exampleProvisioner = ''nebula/nebula/edge1'' \<and>
   GetID (exampleProvisioner\<lparr>Nebula.ID := ''7c1e''\<rparr>) = ''7c1e'' \<and>
   GetIDForToken (exampleProvisioner\<lparr>Nebula.ID := ''7c1e'', Roots := []\<rparr>) =
     GetIDForToken exampleProvisioner"
proof -
  have name: "Nebula.Name exampleProvisioner = ''nebula/edge1''"
    and id: "Nebula.ID exampleProvisioner = ''''"
    by (simp_all add: exampleProvisioner_def)
  from GetID_and_GetIDForToken [of exampleProvisioner]
       GetID_and_GetIDForToken [of "exampleProvisioner\<lparr>Nebula.ID := ''7c1e''\<rparr>"]
  show ?thesis
    by (simp add: name id)
qed

subsection \<open>Renewal\<close>

text \<open>
  C7: \<open>AuthorizeRenew\<close> returns an Unauthorized error exactly when the policy has renewal
  disabled and \<open>nil\<close> otherwise, whatever the context and the certificate are.
\<close>

theorem AuthorizeRenew_iff_renewal_disabled:
  "(AuthorizeRenew p ctx cert = None \<longleftrightarrow> \<not> IsDisableRenewal (claimer p)) \<and>
   (IsDisableRenewal (claimer p) \<longrightarrow>
      (\<exists>fmt args. AuthorizeRenew p ctx cert = Some (Errs StatusUnauthorized fmt args))) \<and>
   AuthorizeRenew p ctx' cert' = AuthorizeRenew p ctx cert"
  by (simp add: AuthorizeRenew_def)

theorem AuthorizeRenew_iff_renewal_disabled_witness:
  "IsDisableRenewal (claimer exampleRenewalDisabled) \<and>
   (\<exists>fmt args. AuthorizeRenew exampleRenewalDisabled () exampleCert =
      Some (Errs StatusUnauthorized fmt args)) \<and>
   \<not> IsDisableRenewal (claimer exampleProvisioner) \<and>
   AuthorizeRenew exampleProvisioner () exampleCA = None"
proof -
  have off: "IsDisableRenewal (claimer exampleRenewalDisabled)"
    by (simp add: exampleRenewalDisabled_def)
  have on: "\<not> IsDisableRenewal (claimer exampleProvisioner)"
    by (simp add: exampleProvisioner_def)
  from AuthorizeRenew_iff_renewal_disabled
         [of exampleRenewalDisabled "()" exampleCert "()" exampleCert]
       AuthorizeRenew_iff_renewal_disabled
         [of exampleProvisioner "()" exampleCA "()" exampleCA]
       off on
  show ?thesis by simp
qed

subsection \<open>SSH renewal and rekey\<close>

text \<open>
  C6: for every provisioner, context and token, \<open>AuthorizeSSHRenew\<close> and
  \<open>AuthorizeSSHRekey\<close> return an Unauthorized error saying that the operation is not
  supported, with a nil certificate and no sign options.
\<close>

theorem AuthorizeSSHRenew_and_Rekey_unsupported:
  "AuthorizeSSHRenew p ctx token =
     (None, Some (Errs StatusUnauthorized ''nebula provisioner does not support SSH renew'' [])) \<and>
   AuthorizeSSHRekey p ctx' token' =
     (None, [], Some (Errs StatusUnauthorized ''nebula provisioner does not support SSH rekey'' []))"
  by (simp add: AuthorizeSSHRenew_def AuthorizeSSHRekey_def)

subsection \<open>The validators\<close>

lemma ipInNetworks_iff: "ipInNetworks ip nets \<longleftrightarrow> (\<exists>n \<in> set nets. Equal ip (IP n))"
  by (induction nets) auto


lemma validPrincipals_None_iff:
  "validPrincipals ext v got ps = None \<longleftrightarrow>
     (\<forall>p \<in> set ps. p = nebulaPrincipalsValidator.Name v \<or>
        (\<exists>ip. ParseIP ext p = Some ip \<and>
           (\<exists>n \<in> set (nebulaPrincipalsValidator.IPs v). Equal ip (IP n))))"
  by (induction ps) (auto simp: Let_def ipInNetworks_iff split: option.splits)

lemma validPrincipals_Forbidden:
  "validPrincipals ext v got ps = Some e \<Longrightarrow> \<exists>fmt args. e = Errs StatusForbidden fmt args"
  by (induction ps) (auto simp: Let_def split: option.splits if_splits)



text \<open>
  C5: the principal validator returns \<open>nil\<close> if and only if every requested principal
  is the name of the certificate or parses as an IP address equal to the address of one
  of the certificate's networks; every error it returns is Forbidden.
\<close>

theorem nebulaPrincipalsValidator_Valid_iff:
  "(nebulaPrincipalsValidator_Valid ext v got = None \<longleftrightarrow>
      (\<forall>p \<in> set (Principals got).
          p = nebulaPrincipalsValidator.Name v \<or>
          (\<exists>ip. ParseIP ext p = Some ip \<and>
             (\<exists>ipnet \<in> set (nebulaPrincipalsValidator.IPs v). Equal ip (IP ipnet))))) \<and>
   (nebulaPrincipalsValidator_Valid ext v got \<noteq> None \<longrightarrow>
      (\<exists>fmt args.
         nebulaPrincipalsValidator_Valid ext v got = Some (Errs StatusForbidden fmt args)))"
  unfolding nebulaPrincipalsValidator_Valid_def
  using validPrincipals_None_iff [of ext v got "Principals got"]
        validPrincipals_Forbidden [of ext v got "Principals got"]
  by auto

theorem nebulaPrincipalsValidator_Valid_iff_witness:
  "nebulaPrincipalsValidator_Valid exampleExternals
     \<lparr>nebulaPrincipalsValidator.Name = ''node-7'', IPs = Ips (Details exampleCert)\<rparr>
     (exampleSSHOptions [''node-7'', ''10.0.0.7'']) = None \<and>
   (\<exists>fmt args.
      nebulaPrincipalsValidator_Valid exampleExternals
        \<lparr>nebulaPrincipalsValidator.Name = ''node-7'', IPs = Ips (Details exampleCert)\<rparr>
        (exampleSSHOptions [''node-7'', ''node-9'']) = Some (Errs StatusForbidden fmt args))"
proof -
  let ?v = "\<lparr>nebulaPrincipalsValidator.Name = ''node-7'', IPs = Ips (Details exampleCert)\<rparr>"
  have bad: "nebulaPrincipalsValidator_Valid exampleExternals ?v
               (exampleSSHOptions [''node-7'', ''node-9'']) \<noteq> None"
    by (simp add: nebulaPrincipalsValidator_Valid_def exampleSSHOptions_def example_defs)
  have good: "\<forall>p \<in> set (Principals (exampleSSHOptions [''node-7'', ''10.0.0.7''])).
      p = nebulaPrincipalsValidator.Name ?v \<or>
      (\<exists>ip. ParseIP exampleExternals p = Some ip \<and>
         (\<exists>ipnet \<in> set (nebulaPrincipalsValidator.IPs ?v). Equal ip (IP ipnet)))"
    by (simp add: exampleSSHOptions_def example_defs)
  from nebulaPrincipalsValidator_Valid_iff
         [of exampleExternals ?v "exampleSSHOptions [''node-7'', ''10.0.0.7'']"]
       nebulaPrincipalsValidator_Valid_iff
         [of exampleExternals ?v "exampleSSHOptions [''node-7'', ''node-9'']"]
       bad good
  show ?thesis by blast
qed

subsection \<open>Token authorization\<close>

text \<open>
  Once the token is parsed and its certificate decoded and verified, what is left of
  \<open>authorizeToken\<close> is the check of the signature and of the claims.
\<close>

lemma authorizeToken_decoded:
  assumes "ParseSigned ext token = Inr jwt"
    and "Headers jwt = h # hs"
    and "ExtraHeaders h NebulaCertHeader = Some (IString s)"
    and "DecodeString ext s = Inr b"
    and "UnmarshalNebulaCertificateFromPEM ext b = Inr c"
    and "fst (Verify ext c (now ext 0) (caPool p))"
  shows "authorizeToken ext p token auds =
     (case joseVerify ext jwt
             (if IsCA (Details c) then Ed25519PublicKey (PublicKey (Details c))
              else X25519PublicKey (PublicKey (Details c))) of
        Inl err \<Rightarrow>
          Err (ErrsErr StatusUnauthorized err ''token is not valid: signature does not match'')
      | Inr claims \<Rightarrow>
          (case ValidateWithLeeway claims
                  \<lparr>Expected.Issuer = Nebula.Name p, Time = now ext 1\<rparr> Minute of
             Some err \<Rightarrow>
               Err (ErrsErr StatusUnauthorized err ''token is not valid: invalid claims'')
           | None \<Rightarrow>
               if \<not> matchesAudience (Audience claims) auds
               then Err (Errs StatusUnauthorized ''token is not valid: invalid claims'' [])
               else if Subject claims = ''''
               then Err (Errs StatusUnauthorized
                           ''token is not valid: subject cannot be empty'' [])
               else Ok (c, claims)))"
  using assms
  by (cases "Verify ext c (now ext 0) (caPool p)") (simp add: authorizeToken_def Let_def)

lemma authorizeToken_Ok_decoded:
  assumes "authorizeToken ext p token auds = Ok (c, claims)"
  shows "\<exists>jwt h hs s b.
           ParseSigned ext token = Inr jwt \<and> Headers jwt = h # hs \<and>
           ExtraHeaders h NebulaCertHeader = Some (IString s) \<and>
           DecodeString ext s = Inr b \<and>
           UnmarshalNebulaCertificateFromPEM ext b = Inr c \<and>
           fst (Verify ext c (now ext 0) (caPool p)) \<and>
           joseVerify ext jwt
             (if IsCA (Details c) then Ed25519PublicKey (PublicKey (Details c))
              else X25519PublicKey (PublicKey (Details c))) = Inr claims \<and>
           ValidateWithLeeway claims
             \<lparr>Expected.Issuer = Nebula.Name p, Time = now ext 1\<rparr> Minute = None \<and>
           matchesAudience (Audience claims) auds \<and> Subject claims \<noteq> ''''"
  using assms
  by (auto simp: authorizeToken_def Let_def
           split: sum.splits list.splits option.splits iface.splits prod.splits if_splits)

lemma ValidateWithLeeway_None_iff:
  "ValidateWithLeeway claims \<lparr>Expected.Issuer = n, Time = t\<rparr> Minute = None \<longleftrightarrow>
     jwtPayload.Issuer claims = n \<and>
     (\<forall>nbf. jwtPayload.NotBefore claims = Some nbf \<longrightarrow> nbf \<le> t + 60 * 1000000000) \<and>
     (\<forall>ex. Expiry claims = Some ex \<longrightarrow> t - 60 * 1000000000 \<le> ex)"
  by (auto simp: ValidateWithLeeway_def Minute_def Second_def Add_def split: option.splits)

lemma matchesAudience_iff:
  "matchesAudience claimed accepted \<longleftrightarrow> (\<exists>a \<in> set claimed. a \<in> set accepted)"
  by (simp add: matchesAudience_def)

lemma claims_checks_iff:
  "ValidateWithLeeway claims \<lparr>Expected.Issuer = Nebula.Name p, Time = t\<rparr> Minute = None \<and>
   matchesAudience (Audience claims) auds \<and> Subject claims \<noteq> '''' \<longleftrightarrow>
   acceptedClaims p t auds claims"
  unfolding ValidateWithLeeway_None_iff matchesAudience_iff acceptedClaims_def by blast

text \<open>
  C3: for the certificate \<open>c\<close> taken from the token, the signature of the token is
  checked with the bytes of the certificate's public key as an Ed25519 key when the
  certificate is an authority's, and as an X25519 key otherwise: a failure of
  \<open>jose.Verify\<close> with that key is an Unauthorized error, an authorized token is one that
  \<open>jose.Verify\<close> accepted with that key, and what \<open>jose.Verify\<close> answers for any other
  key changes nothing.
\<close>

theorem authorizeToken_verification_key:
  assumes "ParseSigned ext token = Inr jwt"
    and "Headers jwt = h # hs"
    and "ExtraHeaders h NebulaCertHeader = Some (IString s)"
    and "DecodeString ext s = Inr b"
    and "UnmarshalNebulaCertificateFromPEM ext b = Inr c"
    and "fst (Verify ext c (now ext 0) (caPool p))"
    and "pub = (if IsCA (Details c) then Ed25519PublicKey (PublicKey (Details c))
                else X25519PublicKey (PublicKey (Details c)))"
  shows "(\<forall>err. joseVerify ext jwt pub = Inl err \<longrightarrow>
            authorizeToken ext p token auds =
              Err (ErrsErr StatusUnauthorized err
                     ''token is not valid: signature does not match'')) \<and>
         (\<forall>c' claims. authorizeToken ext p token auds = Ok (c', claims) \<longrightarrow>
            c' = c \<and> joseVerify ext jwt pub = Inr claims) \<and>
         (\<forall>verify'. verify' jwt pub = joseVerify ext jwt pub \<longrightarrow>
            authorizeToken (ext\<lparr>joseVerify := verify'\<rparr>) p token auds =
            authorizeToken ext p token auds)"
proof (intro conjI allI impI)
  fix err
  assume "joseVerify ext jwt pub = Inl err"
  then show "authorizeToken ext p token auds =
      Err (ErrsErr StatusUnauthorized err ''token is not valid: signature does not match'')"
    using authorizeToken_decoded [OF assms(1-6), of auds] assms(7) by simp
next
  fix c' claims
  assume ok: "authorizeToken ext p token auds = Ok (c', claims)"
  from authorizeToken_Ok_decoded [OF ok] assms(1-5)
  show "c' = c" by auto
  with authorizeToken_Ok_decoded [OF ok] assms(1-5) assms(7)
  show "joseVerify ext jwt pub = Inr claims" by auto
next
  fix verify'
  assume same: "verify' jwt pub = joseVerify ext jwt pub"
  have "authorizeToken (ext\<lparr>joseVerify := verify'\<rparr>) p token auds =
     (case verify' jwt pub of
        Inl err \<Rightarrow>
          Err (ErrsErr StatusUnauthorized err ''token is not valid: signature does not match'')
      | Inr claims \<Rightarrow>
          (case ValidateWithLeeway claims
                  \<lparr>Expected.Issuer = Nebula.Name p, Time = now ext 1\<rparr> Minute of
             Some err \<Rightarrow>
               Err (ErrsErr StatusUnauthorized err ''token is not valid: invalid claims'')
           | None \<Rightarrow>
               if \<not> matchesAudience (Audience claims) auds
               then Err (Errs StatusUnauthorized ''token is not valid: invalid claims'' [])
               else if Subject claims = ''''
               then Err (Errs StatusUnauthorized
                           ''token is not valid: subject cannot be empty'' [])
               else Ok (c, claims)))"
    using authorizeToken_decoded [of "ext\<lparr>joseVerify := verify'\<rparr>" token jwt h hs s b c p auds]
          assms by (simp split: sum.splits option.splits)
  then show "authorizeToken (ext\<lparr>joseVerify := verify'\<rparr>) p token auds =
             authorizeToken ext p token auds"
    using authorizeToken_decoded [OF assms(1-6), of auds] assms(7) same by simp
qed

theorem authorizeToken_verification_key_witness:
  "\<not> IsCA (Details exampleCert) \<and>
   authorizeToken exampleExternals exampleProvisioner exampleToken
     (Sign (audiences exampleProvisioner)) = Ok (exampleCert, exampleClaims) \<and>
   joseVerify exampleExternals exampleJWT (X25519PublicKey (PublicKey (Details exampleCert))) =
     Inr exampleClaims \<and>
   joseVerify exampleExternals exampleJWT (Ed25519PublicKey (PublicKey (Details exampleCert))) =
     Inl (New ''error in cryptographic primitive'') \<and>
   IsCA (Details exampleCA) \<and>
   authorizeToken exampleCAExternals exampleProvisioner exampleToken
     (Sign (audiences exampleProvisioner)) = Ok (exampleCA, exampleClaims) \<and>
   joseVerify exampleCAExternals exampleJWT (Ed25519PublicKey (PublicKey (Details exampleCA))) =
     Inr exampleClaims \<and>
   joseVerify exampleCAExternals exampleJWT (X25519PublicKey (PublicKey (Details exampleCA))) =
     Inl (New ''error in cryptographic primitive'')"
proof -
  let ?h = "\<lparr>ExtraHeaders = [NebulaCertHeader \<mapsto> IString ''bm9kZS03'']\<rparr>"
  let ?b = "[110, 111, 100, 101, 45, 55] :: bytes"
  have leaf: "authorizeToken exampleExternals exampleProvisioner exampleToken
     (Sign (audiences exampleProvisioner)) = Ok (exampleCert, exampleClaims)"
    by (simp add: authorizeToken_def example_defs)
  have ca: "authorizeToken exampleCAExternals exampleProvisioner exampleToken
     (Sign (audiences exampleProvisioner)) = Ok (exampleCA, exampleClaims)"
    by (simp add: authorizeToken_def exampleCAExternals_def example_defs)
  have other:
    "joseVerify exampleExternals exampleJWT (Ed25519PublicKey (PublicKey (Details exampleCert))) =
       Inl (New ''error in cryptographic primitive'')"
    "joseVerify exampleCAExternals exampleJWT (X25519PublicKey (PublicKey (Details exampleCA))) =
       Inl (New ''error in cryptographic primitive'')"
    by (simp_all add: exampleCAExternals_def exampleExternals_def exampleCert_def exampleCA_def)
  have roles: "\<not> IsCA (Details exampleCert)" "IsCA (Details exampleCA)"
    by (simp_all add: exampleCert_def exampleCA_def)
  have parsed:
    "ParseSigned exampleExternals exampleToken = Inr exampleJWT"
    "ParseSigned exampleCAExternals exampleToken = Inr exampleJWT"
    "Headers exampleJWT = ?h # []"
    "ExtraHeaders ?h NebulaCertHeader = Some (IString ''bm9kZS03'')"
    "DecodeString exampleExternals ''bm9kZS03'' = Inr ?b"
    "DecodeString exampleCAExternals ''bm9kZS03'' = Inr ?b"
    by (simp_all add: exampleCAExternals_def exampleExternals_def exampleJWT_def)
  have certs:
    "UnmarshalNebulaCertificateFromPEM exampleExternals ?b = Inr exampleCert"
    "UnmarshalNebulaCertificateFromPEM exampleCAExternals ?b = Inr exampleCA"
    "fst (Verify exampleExternals exampleCert (now exampleExternals 0)
            (caPool exampleProvisioner))"
    "fst (Verify exampleCAExternals exampleCA (now exampleCAExternals 0)
            (caPool exampleProvisioner))"
    by (simp_all add: exampleCAExternals_def exampleExternals_def exampleProvisioner_def)
  note leafKey =
    authorizeToken_verification_key
      [OF parsed(1) parsed(3) parsed(4) parsed(5) certs(1) certs(3) refl,
       of "Sign (audiences exampleProvisioner)"]
  note caKey =
    authorizeToken_verification_key
      [OF parsed(2) parsed(3) parsed(4) parsed(6) certs(2) certs(4) refl,
       of "Sign (audiences exampleProvisioner)"]
  from leafKey [THEN conjunct2, THEN conjunct1, rule_format, OF leaf] roles(1)
  have 1: "joseVerify exampleExternals exampleJWT
          (X25519PublicKey (PublicKey (Details exampleCert))) = Inr exampleClaims"
    by simp
  from caKey [THEN conjunct2, THEN conjunct1, rule_format, OF ca] roles(2)
  have 2: "joseVerify exampleCAExternals exampleJWT
          (Ed25519PublicKey (PublicKey (Details exampleCA))) = Inr exampleClaims"
    by simp
  from 1 2 leaf ca other roles show ?thesis
    by (intro conjI)
qed

text \<open>
  C4: when the token is parsed, its certificate decoded and verified and its signature
  verified, giving the claims, \<open>authorizeToken\<close> returns the certificate and the claims
  if the claims meet the four conditions (issuer, validity window with a leeway of one
  minute, audience, subject) and an Unauthorized error if they violate any of them; and
  whatever the token, it returns a certificate and claims only when the claims meet the
  four conditions.
\<close>

theorem authorizeToken_validates_claims:
  "(\<forall>jwt h hs s b c claims.
      ParseSigned ext token = Inr jwt \<and> Headers jwt = h # hs \<and>
      ExtraHeaders h NebulaCertHeader = Some (IString s) \<and>
      DecodeString ext s = Inr b \<and>
      UnmarshalNebulaCertificateFromPEM ext b = Inr c \<and>
      fst (Verify ext c (now ext 0) (caPool p)) \<and>
      joseVerify ext jwt
        (if IsCA (Details c) then Ed25519PublicKey (PublicKey (Details c))
         else X25519PublicKey (PublicKey (Details c))) = Inr claims \<longrightarrow>
      (if acceptedClaims p (now ext 1) auds claims
       then authorizeToken ext p token auds = Ok (c, claims)
       else (\<exists>e. authorizeToken ext p token auds = Err e \<and>
                  statusOf e = Some StatusUnauthorized))) \<and>
   (\<forall>c claims. authorizeToken ext p token auds = Ok (c, claims) \<longrightarrow>
      acceptedClaims p (now ext 1) auds claims)"
proof (intro conjI allI impI)
  fix jwt h hs s b c claims
  assume decoded:
    "ParseSigned ext token = Inr jwt \<and> Headers jwt = h # hs \<and>
     ExtraHeaders h NebulaCertHeader = Some (IString s) \<and>
     DecodeString ext s = Inr b \<and>
     UnmarshalNebulaCertificateFromPEM ext b = Inr c \<and>
     fst (Verify ext c (now ext 0) (caPool p)) \<and>
     joseVerify ext jwt
       (if IsCA (Details c) then Ed25519PublicKey (PublicKey (Details c))
        else X25519PublicKey (PublicKey (Details c))) = Inr claims"
  then have eq: "authorizeToken ext p token auds =
      (case ValidateWithLeeway claims
              \<lparr>Expected.Issuer = Nebula.Name p, Time = now ext 1\<rparr> Minute of
         Some err \<Rightarrow>
           Err (ErrsErr StatusUnauthorized err ''token is not valid: invalid claims'')
       | None \<Rightarrow>
           if \<not> matchesAudience (Audience claims) auds
           then Err (Errs StatusUnauthorized ''token is not valid: invalid claims'' [])
           else if Subject claims = ''''
           then Err (Errs StatusUnauthorized
                       ''token is not valid: subject cannot be empty'' [])
           else Ok (c, claims))"
    using authorizeToken_decoded [of ext token jwt h hs s b c p auds] by simp
  show "if acceptedClaims p (now ext 1) auds claims
        then authorizeToken ext p token auds = Ok (c, claims)
        else (\<exists>e. authorizeToken ext p token auds = Err e \<and>
                   statusOf e = Some StatusUnauthorized)"
    using claims_checks_iff [of claims p "now ext 1" auds]
    by (auto simp: eq statusOf_def split: option.splits)
next
  fix c claims
  assume "authorizeToken ext p token auds = Ok (c, claims)"
  from authorizeToken_Ok_decoded [OF this] claims_checks_iff [of claims p "now ext 1" auds]
  show "acceptedClaims p (now ext 1) auds claims" by blast
qed

theorem authorizeToken_validates_claims_witness:
  "acceptedClaims exampleProvisioner (now exampleExternals 1)
     (Sign (audiences exampleProvisioner)) exampleClaims \<and>
   authorizeToken exampleExternals exampleProvisioner exampleToken
     (Sign (audiences exampleProvisioner)) = Ok (exampleCert, exampleClaims) \<and>
   \<not> acceptedClaims exampleProvisioner (now exampleExternals 1)
       (Revoke (audiences exampleProvisioner)) exampleClaims \<and>
   (\<exists>e. authorizeToken exampleExternals exampleProvisioner exampleToken
           (Revoke (audiences exampleProvisioner)) = Err e \<and>
         statusOf e = Some StatusUnauthorized)"
proof -
  let ?h = "\<lparr>ExtraHeaders = [NebulaCertHeader \<mapsto> IString ''bm9kZS03'']\<rparr>"
  let ?b = "[110, 111, 100, 101, 45, 55] :: bytes"
  have decoded:
    "ParseSigned exampleExternals exampleToken = Inr exampleJWT \<and>
     Headers exampleJWT = ?h # [] \<and>
     ExtraHeaders ?h NebulaCertHeader = Some (IString ''bm9kZS03'') \<and>
     DecodeString exampleExternals ''bm9kZS03'' = Inr ?b \<and>
     UnmarshalNebulaCertificateFromPEM exampleExternals ?b = Inr exampleCert \<and>
     fst (Verify exampleExternals exampleCert (now exampleExternals 0)
            (caPool exampleProvisioner)) \<and>
     joseVerify exampleExternals exampleJWT
       (if IsCA (Details exampleCert)
        then Ed25519PublicKey (PublicKey (Details exampleCert))
        else X25519PublicKey (PublicKey (Details exampleCert))) = Inr exampleClaims"
    by (simp add: exampleExternals_def exampleJWT_def exampleProvisioner_def exampleCert_def)
  have good: "acceptedClaims exampleProvisioner (now exampleExternals 1)
     (Sign (audiences exampleProvisioner)) exampleClaims"
    by (simp add: acceptedClaims_def exampleExternals_def exampleProvisioner_def
                  exampleClaims_def Second_def)
  have bad: "\<not> acceptedClaims exampleProvisioner (now exampleExternals 1)
     (Revoke (audiences exampleProvisioner)) exampleClaims"
    by (simp add: acceptedClaims_def exampleExternals_def exampleProvisioner_def
                  exampleClaims_def Second_def)
  from authorizeToken_validates_claims
         [of exampleExternals exampleToken exampleProvisioner
             "Sign (audiences exampleProvisioner)",
          THEN conjunct1, rule_format, OF decoded]
       good
  have 1: "authorizeToken exampleExternals exampleProvisioner exampleToken
     (Sign (audiences exampleProvisioner)) = Ok (exampleCert, exampleClaims)"
    by simp
  from authorizeToken_validates_claims
         [of exampleExternals exampleToken exampleProvisioner
             "Revoke (audiences exampleProvisioner)",
          THEN conjunct1, rule_format, OF decoded]
       bad
  have 2: "\<exists>e. authorizeToken exampleExternals exampleProvisioner exampleToken
           (Revoke (audiences exampleProvisioner)) = Err e \<and>
         statusOf e = Some StatusUnauthorized"
    by simp
  from good 1 bad 2 show ?thesis
    by (intro conjI)
qed

subsection \<open>The sign options of an X.509 request\<close>

text \<open>
  C2: when \<open>AuthorizeSign\<close> returns without an error it returns seven sign options, in
  this order: the options \<open>TemplateOptions\<close> rendered, whose data hold the certificate;
  the provisioner extension with the type Nebula and the provisioner's name; the limit
  of the duration, with the policy's default TLS duration and the not-before and
  not-after of the Nebula certificate; the validator of the common name against the
  subject of the claims; the SAN validator with the name and the networks of the Nebula
  certificate; the default public-key validator; the validity validator with the
  policy's minimum and maximum TLS durations.
\<close>

theorem AuthorizeSign_options:
  assumes "AuthorizeSign ext p ctx token = Ok opts"
  shows "\<exists>cert claims data templateOptions.
           authorizeToken ext p token (Sign (audiences p)) = Ok (cert, claims) \<and>
           TemplateOptions ext (Options p) data = Inr templateOptions \<and>
           data ''Cert'' = Some (VCert cert) \<and>
           opts =
             [templateOptions,
              provisionerExtensionOption TypeNebula (Nebula.Name p) '''',
              profileLimitDuration
                (DefaultTLSCertDuration (claimer p))
                (NebulaCertificateDetails.NotBefore (Details cert))
                (NotAfter (Details cert)),
              commonNameValidator (Subject claims),
              SANsValidator
                \<lparr>nebulaSANsValidator.Name = NebulaCertificateDetails.Name (Details cert),
                 IPs = Ips (Details cert)\<rparr>,
              defaultPublicKeyValidator,
              validityValidator
                (MinTLSCertDuration (claimer p)) (MaxTLSCertDuration (claimer p))] \<and>
           length opts = 7"
proof (cases "authorizeToken ext p token (Sign (audiences p))")
  case (Ok r)
  obtain cert claims where r: "r = (cert, claims)"
    by (cases r)
  let ?data0 = "CreateTemplateData ext (Subject claims) (SANs claims)"
  let ?data1 = "case unsafeParseSigned ext token of
                  Inr v \<Rightarrow> SetToken ext ?data0 v | Inl err \<Rightarrow> ?data0"
  let ?data = "Set_data ?data1 ''Cert'' (VCert cert)"
  have cert: "?data ''Cert'' = Some (VCert cert)"
    by (simp add: Set_data_def)
  show ?thesis
  proof (cases "TemplateOptions ext (Options p) ?data")
    case (Inl err)
    with Ok r assms show ?thesis
      by (simp add: AuthorizeSign_def Let_def)
  next
    case (Inr templateOptions)
    with Ok r assms have
      "opts =
         [templateOptions,
          provisionerExtensionOption TypeNebula (Nebula.Name p) '''',
          profileLimitDuration
            (DefaultTLSCertDuration (claimer p))
            (NebulaCertificateDetails.NotBefore (Details cert))
            (NotAfter (Details cert)),
          commonNameValidator (Subject claims),
          SANsValidator
            \<lparr>nebulaSANsValidator.Name = NebulaCertificateDetails.Name (Details cert),
             IPs = Ips (Details cert)\<rparr>,
          defaultPublicKeyValidator,
          validityValidator
            (MinTLSCertDuration (claimer p)) (MaxTLSCertDuration (claimer p))]"
      by (simp add: AuthorizeSign_def Let_def)
    with Ok r Inr cert show ?thesis
      by (intro exI [of _ cert] exI [of _ claims] exI [of _ ?data]
                exI [of _ templateOptions]) simp
  qed
next
  case (Err e)
  with assms show ?thesis
    by (simp add: AuthorizeSign_def)
next
  case (Panic m)
  with assms show ?thesis
    by (simp add: AuthorizeSign_def)
qed

theorem AuthorizeSign_options_witness:
  "\<exists>templateOptions.
     AuthorizeSign exampleExternals exampleProvisioner () exampleToken =
       Ok [templateOptions,
           provisionerExtensionOption TypeNebula ''nebula/edge1'' '''',
           profileLimitDuration (1440 * Minute) 0 (86400 * Second),
           commonNameValidator ''node-7'',
           SANsValidator
             \<lparr>nebulaSANsValidator.Name = ''node-7'',
              IPs = [\<lparr>IP = [10, 0, 0, 7], Mask = [255, 255, 255, 255]\<rparr>]\<rparr>,
           defaultPublicKeyValidator,
           validityValidator (5 * Minute) (1440 * Minute)]"
proof -
  have auth: "authorizeToken exampleExternals exampleProvisioner exampleToken
     (Sign (audiences exampleProvisioner)) = Ok (exampleCert, exampleClaims)"
    by (simp add: authorizeToken_def example_defs)
  have rendered: "TemplateOptions exampleExternals opts data = Inr (CertificateOptionsFunc opts data)"
    for opts data
    by (simp add: exampleExternals_def)
  have "\<exists>opts. AuthorizeSign exampleExternals exampleProvisioner () exampleToken = Ok opts"
    by (simp add: AuthorizeSign_def auth Let_def rendered)
  then obtain opts where
    ok: "AuthorizeSign exampleExternals exampleProvisioner () exampleToken = Ok opts" ..
  from AuthorizeSign_options [OF ok] auth
  obtain templateOptions where
    "opts =
       [templateOptions,
        provisionerExtensionOption TypeNebula (Nebula.Name exampleProvisioner) '''',
        profileLimitDuration
          (DefaultTLSCertDuration (claimer exampleProvisioner))
          (NebulaCertificateDetails.NotBefore (Details exampleCert))
          (NotAfter (Details exampleCert)),
        commonNameValidator (Subject exampleClaims),
        SANsValidator
          \<lparr>nebulaSANsValidator.Name = NebulaCertificateDetails.Name (Details exampleCert),
           IPs = Ips (Details exampleCert)\<rparr>,
        defaultPublicKeyValidator,
        validityValidator
          (MinTLSCertDuration (claimer exampleProvisioner))
          (MaxTLSCertDuration (claimer exampleProvisioner))]"
    by auto
  with ok show ?thesis
    by (simp add: exampleProvisioner_def exampleCert_def exampleClaims_def)
qed

text \<open>
  Conversely, \<open>AuthorizeSign\<close> returns options for every token that \<open>authorizeToken\<close>
  accepts with the sign audiences and whose template data \<open>TemplateOptions\<close> renders.
\<close>

lemma AuthorizeSign_accepts:
  assumes "authorizeToken ext p token (Sign (audiences p)) = Ok (cert, claims)"
    and "\<forall>data. \<exists>rendered. TemplateOptions ext (Options p) data = Inr rendered"
  shows "\<exists>opts. AuthorizeSign ext p ctx token = Ok opts"
proof -
  let ?data0 = "CreateTemplateData ext (Subject claims) (SANs claims)"
  let ?data1 = "case unsafeParseSigned ext token of
                  Inr v \<Rightarrow> SetToken ext ?data0 v | Inl err \<Rightarrow> ?data0"
  from assms(2) obtain rendered where
    "TemplateOptions ext (Options p) (Set_data ?data1 ''Cert'' (VCert cert)) = Inr rendered"
    by blast
  with assms(1) show ?thesis
    by (simp add: AuthorizeSign_def Let_def)
qed

subsection \<open>The sign options of an SSH request\<close>

text \<open>
  C1: with SSH enabled and a token that \<open>authorizeToken\<close> accepts, \<open>AuthorizeSSHSign\<close>
  does not return when the claims hold no SSH options: with no \<open>step\<close> claim the
  condition of line 171 reads \<open>SSH\<close> through the nil pointer \<open>claims.Step\<close>, and with a
  \<open>step\<close> claim without \<open>ssh\<close> the call of line 179 reads through the nil pointer
  \<open>opts\<close>. Both are run-time panics, where the specification has the default sign
  options returned.
\<close>

theorem AuthorizeSSHSign_panics_without_ssh_options:
  assumes "IsSSHCAEnabled (claimer p)"
    and "authorizeToken ext p token (SSHSign (audiences p)) = Ok (cert, claims)"
    and "Step claims = None \<or> (\<exists>step. Step claims = Some step \<and> SSH step = None)"
  shows "AuthorizeSSHSign ext p ctx token =
           Panic ''invalid memory address or nil pointer dereference''"
  using assms
  by (auto simp: AuthorizeSSHSign_def stepGiven_def stepOptions_def deref_def Let_def)

theorem AuthorizeSSHSign_panics_without_ssh_options_witness:
  "IsSSHCAEnabled (claimer exampleProvisioner) \<and>
   authorizeToken exampleExternals exampleProvisioner exampleToken
     (SSHSign (audiences exampleProvisioner)) = Ok (exampleCert, exampleClaims) \<and>
   Step exampleClaims = None \<and>
   AuthorizeSSHSign exampleExternals exampleProvisioner () exampleToken =
     Panic ''invalid memory address or nil pointer dereference''"
proof -
  have enabled: "IsSSHCAEnabled (claimer exampleProvisioner)"
    by (simp add: exampleProvisioner_def)
  have auth: "authorizeToken exampleExternals exampleProvisioner exampleToken
     (SSHSign (audiences exampleProvisioner)) = Ok (exampleCert, exampleClaims)"
    by (simp add: authorizeToken_def example_defs)
  have nostep: "Step exampleClaims = None"
    by (simp add: exampleClaims_def)
  from AuthorizeSSHSign_panics_without_ssh_options
         [OF enabled auth disjI1, OF nostep, of "()"]
       enabled auth nostep
  show ?thesis by (intro conjI)
qed

subsection \<open>The SAN validator\<close>

text \<open>
  C8: the result of the SAN validator is determined by the validator and the request:
  two calls with the same validator and the same request give the same result, whatever
  else differs between them (the clock, the parsers), as long as the SAN classifier and
  the three name validators it calls are the same functions.
\<close>

theorem nebulaSANsValidator_Valid_deterministic:
  assumes "v' = v" and "req' = req"
    and "SplitSANs ext' = SplitSANs ext"
    and "dnsNamesValidator ext' = dnsNamesValidator ext"
    and "emailAddressesValidator ext' = emailAddressesValidator ext"
    and "urisValidator ext' = urisValidator ext"
  shows "nebulaSANsValidator_Valid ext' v' req' = nebulaSANsValidator_Valid ext v req"
  unfolding nebulaSANsValidator_Valid_def assms by (rule refl)

theorem nebulaSANsValidator_Valid_deterministic_witness:
  "nebulaSANsValidator_Valid (exampleExternals\<lparr>now := \<lambda>k. 5000 * Second\<rparr>)
     \<lparr>nebulaSANsValidator.Name = ''node-7'', IPs = Ips (Details exampleCert)\<rparr> exampleRequest =
   nebulaSANsValidator_Valid exampleExternals
     \<lparr>nebulaSANsValidator.Name = ''node-7'', IPs = Ips (Details exampleCert)\<rparr> exampleRequest \<and>
   nebulaSANsValidator_Valid exampleExternals
     \<lparr>nebulaSANsValidator.Name = ''node-7'', IPs = Ips (Details exampleCert)\<rparr> exampleRequest =
     None"
proof -
  have accepted: "nebulaSANsValidator_Valid exampleExternals
     \<lparr>nebulaSANsValidator.Name = ''node-7'', IPs = Ips (Details exampleCert)\<rparr> exampleRequest =
     None"
    by (simp add: nebulaSANsValidator_Valid_def exampleRequest_def example_defs)
  from nebulaSANsValidator_Valid_deterministic
         [OF refl refl, of "exampleExternals\<lparr>now := \<lambda>k. 5000 * Second\<rparr>" exampleExternals
            "\<lparr>nebulaSANsValidator.Name = ''node-7'', IPs = Ips (Details exampleCert)\<rparr>"
            exampleRequest]
  have "nebulaSANsValidator_Valid (exampleExternals\<lparr>now := \<lambda>k. 5000 * Second\<rparr>)
     \<lparr>nebulaSANsValidator.Name = ''node-7'', IPs = Ips (Details exampleCert)\<rparr> exampleRequest =
   nebulaSANsValidator_Valid exampleExternals
     \<lparr>nebulaSANsValidator.Name = ''node-7'', IPs = Ips (Details exampleCert)\<rparr> exampleRequest"
    by simp
  with accepted show ?thesis by (intro conjI)
qed

subsection \<open>Addresses and networks\<close>




end
